theory Spec2Isabelle
  imports Complex_Main
begin

section \<open>Porous media combustor: the steady-state solve of PMC.py\<close>

text \<open>
  The development embeds \<^verbatim>\<open>PMC.py\<close> (classes \<^verbatim>\<open>PMC\<close> and \<^verbatim>\<open>PMCNondim\<close>) and the presets of
  \<^verbatim>\<open>Properties.py\<close>. Python floats are read as real numbers: rounding, overflow, infinities
  and NaN are outside the model. What is kept of Python's arithmetic is that the division
  of one float by another raises \<^verbatim>\<open>ZeroDivisionError\<close> when the divisor is zero. The
  arguments of \<^verbatim>\<open>run\<close> are Python floats, as in \<^verbatim>\<open>driver_dim.py\<close>.
\<close>

subsection \<open>Exceptions and the sequencing of statements\<close>

datatype error =
    ZeroDivisionError
  | NameError string
  | ValueError

fun and_then :: "error + 'a \<Rightarrow> ('a \<Rightarrow> error + 'b) \<Rightarrow> error + 'b" where
  "and_then (Inl e) k = Inl e"
| "and_then (Inr v) k = k v"

definition py_div :: "real \<Rightarrow> real \<Rightarrow> error + real" where
  "py_div a b = (if b = 0 then Inl ZeroDivisionError else Inr (a / b))"

text \<open>
  The names bound at module level in \<^verbatim>\<open>PMC.py\<close>: the imports of lines 10 and 11 and the
  two classes. Reading any other global name raises \<^verbatim>\<open>NameError\<close>; \<open>load_global n v\<close>
  is the read of the name \<open>n\<close>, where \<open>v\<close> is what the read would give were the name
  bound.
\<close>

definition module_names :: "string list" where
  "module_names = [''np'', ''Symbol'', ''nsolve'', ''PMC'', ''PMCNondim'']"

definition load_global :: "string \<Rightarrow> 'a \<Rightarrow> error + 'a" where
  "load_global n v = (if n \<in> set module_names then Inr v else Inl (NameError n))"

text \<open>
  Modelled from the spec: the value of \<^verbatim>\<open>ct.stefan_boltzmann\<close>. No module \<^verbatim>\<open>ct\<close> is
  imported by \<^verbatim>\<open>PMC.py\<close> and none is part of the repository; the design notes of the
  specification give the constant as 5.670374e-8 (in SI units).
\<close>

definition stefan_boltzmann :: real where
  "stefan_boltzmann = 5670374 / 100000000000000"

subsection \<open>Parameter sets (Properties.py) and solver objects\<close>

record PMCData =
  lambda_eff :: real
  L :: real
  massFlux :: real
  voidFrac :: real
  dp_upstr :: real
  dp_dwnstr :: real
  emissivity :: real
  DeltaT_PH :: real
  DeltaT_RC :: real

record PMCDataNondim =
  iota :: real
  delta :: real
  mu :: real
  DeltaT_PH :: real
  DeltaT_RC :: real

definition InterfaceStabilized :: PMCData where
  "InterfaceStabilized =
     \<lparr> lambda_eff = 87 / 10,
       L = 3 * (254 / 10000),
       massFlux = 2,
       voidFrac = 805 / 1000,
       dp_upstr = 492 / 1000000,
       dp_dwnstr = 3192 / 1000000,
       emissivity = 9 / 10,
       PMCData.DeltaT_PH = 20,
       PMCData.DeltaT_RC = 20 \<rparr>"

definition InterfaceStabilizedNondim :: PMCDataNondim where
  "InterfaceStabilizedNondim =
     \<lparr> iota = 5 / 100, delta = 138 / 100, mu = 0, DeltaT_PH = 20, DeltaT_RC = 20 \<rparr>"

text \<open>
  An object of class \<^verbatim>\<open>PMC\<close> carries the nine attributes copied by \<^verbatim>\<open>__init__\<close> and, once
  \<^verbatim>\<open>run\<close> has assigned them, the five result attributes; \<open>None\<close> is an attribute that
  has not been assigned. \<^verbatim>\<open>PMCNondim.__init__\<close> does not call the constructor of its base
  class, so its objects carry the five attributes it copies and the results.
\<close>

record PMC = PMCData +
  T3x :: "real option"
  T3y :: "real option"
  T3b :: "real option"
  TS1 :: "real option"
  TS2 :: "real option"

record PMCNondim = PMCDataNondim +
  T3x :: "real option"
  T3y :: "real option"
  T3b :: "real option"
  TS1 :: "real option"
  TS2 :: "real option"

definition PMC_init :: "PMCData \<Rightarrow> PMC" where
  "PMC_init d =
     \<lparr> lambda_eff = lambda_eff d, L = L d, massFlux = massFlux d, voidFrac = voidFrac d,
       dp_upstr = dp_upstr d, dp_dwnstr = dp_dwnstr d, emissivity = emissivity d,
       PMCData.DeltaT_PH = PMCData.DeltaT_PH d, PMCData.DeltaT_RC = PMCData.DeltaT_RC d,
       PMC.T3x = None, PMC.T3y = None, PMC.T3b = None, PMC.TS1 = None, PMC.TS2 = None \<rparr>"

definition PMCNondim_init :: "PMCDataNondim \<Rightarrow> PMCNondim" where
  "PMCNondim_init d =
     \<lparr> iota = iota d, delta = delta d, mu = mu d,
       DeltaT_PH = DeltaT_PH d, DeltaT_RC = DeltaT_RC d,
       T3x = None, T3y = None, T3b = None, TS1 = None, TS2 = None \<rparr>"

subsection \<open>The residual equations\<close>

text \<open>
  The unknowns, in the order in which \<^verbatim>\<open>run\<close> hands them to \<^verbatim>\<open>nsolve\<close>:
  \<^verbatim>\<open>THETA_3x\<close>, \<^verbatim>\<open>THETA_3y\<close>, \<^verbatim>\<open>THETA_3b\<close>, \<^verbatim>\<open>THETA_S1\<close>, \<^verbatim>\<open>THETA_S2\<close>. A symbolic expression
  in them is read as the function it denotes.
\<close>

type_synonym vec5 = "real \<times> real \<times> real \<times> real \<times> real"

definition f1 :: "real \<Rightarrow> real \<Rightarrow> real \<Rightarrow> real \<Rightarrow> vec5 \<Rightarrow> real" where
  "f1 io de m th_3a =
     (\<lambda>(th_3x, th_3y, th_3b, th_S1, th_S2).
        io * ((1 + de * ((th_S1 + th_S2) / 2) ^ 3) * (th_S2 - th_S1)
              - de * m * (th_S1 ^ 4 - th_3a ^ 4)) - (th_3x - th_3a))"

definition f2 :: "real \<Rightarrow> vec5 \<Rightarrow> real" where
  "f2 q = (\<lambda>(th_3x, th_3y, th_3b, th_S1, th_S2). q - (th_3y - th_3x))"

definition f3 :: "real \<Rightarrow> real \<Rightarrow> real \<Rightarrow> real \<Rightarrow> vec5 \<Rightarrow> real" where
  "f3 io de m th_4 =
     (\<lambda>(th_3x, th_3y, th_3b, th_S1, th_S2).
        io * ((1 + de * ((th_S1 + th_S2) / 2) ^ 3) * (th_S2 - th_S1)
              + de * m * (th_S2 ^ 4 - th_4 ^ 4)) - (th_3y - th_3b))"

definition f4 :: "real \<Rightarrow> vec5 \<Rightarrow> real" where
  "f4 Delta1 = (\<lambda>(th_3x, th_3y, th_3b, th_S1, th_S2). Delta1 - (th_S1 - th_3x))"

definition f5 :: "real \<Rightarrow> vec5 \<Rightarrow> real" where
  "f5 Delta2 = (\<lambda>(th_3x, th_3y, th_3b, th_S1, th_S2). Delta2 - (th_3b - th_S2))"

text \<open>Lines 45 to 48 and 91 to 94: the heating value on the lean and on the rich side.\<close>

definition LHV_branch :: "real \<Rightarrow> real \<Rightarrow> real \<Rightarrow> error + real" where
  "LHV_branch f f_st LHV =
     (if f < f_st then Inr LHV
      else and_then (py_div f f_st) (\<lambda>r. py_div LHV r))"

text \<open>
  The constant of the second equation, \<^verbatim>\<open>f/(f+1.)*(LHV/(cp*T0))\<close>, is a product of two
  float divisions, evaluated when the expression is built.
\<close>

definition heat_release :: "real \<Rightarrow> real \<Rightarrow> real \<Rightarrow> real \<Rightarrow> error + real" where
  "heat_release f LHV cp T0 =
     and_then (py_div f (f + 1)) (\<lambda>a.
     and_then (py_div LHV (cp * T0)) (\<lambda>b. Inr (a * b)))"

text \<open>
  Lines 42 to 62 of \<^verbatim>\<open>PMC.run\<close> and lines 88 to 112 of \<^verbatim>\<open>PMCNondim.run\<close> are the same
  statements: the two offsets, the heating value, the five expressions.
\<close>

definition equations ::
  "real \<Rightarrow> real \<Rightarrow> real \<Rightarrow> real \<Rightarrow> real \<Rightarrow> real \<Rightarrow> real \<Rightarrow>
   real \<Rightarrow> real \<Rightarrow> real \<Rightarrow> real \<Rightarrow> real \<Rightarrow> error + (vec5 \<Rightarrow> vec5)" where
  "equations io de m dT_PH dT_RC th_3a th_4 cp T0 f f_st LHV =
     and_then (py_div dT_PH T0) (\<lambda>Delta1.
     and_then (py_div dT_RC T0) (\<lambda>Delta2.
     and_then (LHV_branch f f_st LHV) (\<lambda>LHV'.
     and_then (heat_release f LHV' cp T0) (\<lambda>q.
       Inr (\<lambda>th. (f1 io de m th_3a th, f2 q th, f3 io de m th_4 th,
                   f4 Delta1 th, f5 Delta2 th))))))"

text \<open>Lines 65 to 67: the starting point of the iteration.\<close>

definition initial_guess :: "real \<Rightarrow> error + vec5" where
  "initial_guess T3a =
     and_then (py_div (T3a + 1000) T3a) (\<lambda>g3x.
     and_then (py_div (T3a + 1500) T3a) (\<lambda>g3y.
     and_then (py_div (T3a + 1000) T3a) (\<lambda>g3b.
     and_then (py_div (T3a + 1000) T3a) (\<lambda>gS1.
     and_then (py_div (T3a + 1000) T3a) (\<lambda>gS2.
       Inr (g3x, g3y, g3b, gS1, gS2))))))"

text \<open>\<^verbatim>\<open>SOL *= T0\<close>: the solution back in dimensional units.\<close>

definition rescale :: "real \<Rightarrow> vec5 \<Rightarrow> vec5" where
  "rescale T0 = (\<lambda>(a, b, c, d, e). (a * T0, b * T0, c * T0, d * T0, e * T0))"

subsection \<open>The nonlinear solver\<close>

text \<open>
  \<^verbatim>\<open>nsolve\<close> is SymPy's; the program only calls it. It is a parameter of the model: a
  function of the system, the starting point and the tolerance that returns a vector or
  raises.
\<close>

type_synonym solver = "(vec5 \<Rightarrow> vec5) \<Rightarrow> vec5 \<Rightarrow> real \<Rightarrow> error + vec5"

definition within_tol :: "real \<Rightarrow> vec5 \<Rightarrow> bool" where
  "within_tol tol = (\<lambda>(a, b, c, d, e).
     abs a \<le> tol \<and> abs b \<le> tol \<and> abs c \<le> tol \<and> abs d \<le> tol \<and> abs e \<le> tol)"

text \<open>
  Modelled from the spec: the contract of the Nonlinear Solver, whose code (SymPy's
  \<^verbatim>\<open>nsolve\<close>) is not part of the repository. It returns a vector at which all residuals
  are within the tolerance, or it fails.
\<close>

definition solver_contract :: "solver \<Rightarrow> bool" where
  "solver_contract ns = (\<forall>F x0 tol v. ns F x0 tol = Inr v \<longrightarrow> within_tol tol (F v))"

text \<open>
  One solver that meets the contract, used to exhibit runs that return: it tries the
  vectors of a fixed list in turn and returns the first at which the residuals are
  within the tolerance; with none, it raises as \<^verbatim>\<open>nsolve\<close> does when it finds no root.
\<close>

fun first_within :: "vec5 list \<Rightarrow> solver" where
  "first_within [] F x0 tol = Inl ValueError"
| "first_within (v # vs) F x0 tol =
     (if within_tol tol (F v) then Inr v else first_within vs F x0 tol)"

subsection \<open>PMCNondim.run\<close>

text \<open>Lines 85 to 112: the system handed to the solver.\<close>

definition PMCNondim_equations ::
  "PMCNondim \<Rightarrow> real \<Rightarrow> real \<Rightarrow> real \<Rightarrow> real \<Rightarrow> real \<Rightarrow> real \<Rightarrow> real
   \<Rightarrow> error + (vec5 \<Rightarrow> vec5)" where
  "PMCNondim_equations self cp T0 T3a T4 f f_st LHV =
     and_then (py_div T3a T0) (\<lambda>th_3a.
     and_then (py_div T4 T0) (\<lambda>th_4.
       equations (iota self) (delta self) (mu self) (DeltaT_PH self) (DeltaT_RC self)
         th_3a th_4 cp T0 f f_st LHV))"

text \<open>Lines 85 to 119: the value of \<^verbatim>\<open>SOL\<close> after the rescaling.\<close>

definition PMCNondim_SOL ::
  "solver \<Rightarrow> PMCNondim \<Rightarrow> real \<Rightarrow> real \<Rightarrow> real \<Rightarrow> real \<Rightarrow> real \<Rightarrow> real \<Rightarrow> real
   \<Rightarrow> error + vec5" where
  "PMCNondim_SOL nsolve self cp T0 T3a T4 f f_st LHV =
     and_then (PMCNondim_equations self cp T0 T3a T4 f f_st LHV) (\<lambda>F.
     and_then (initial_guess T3a) (\<lambda>x0.
     and_then (nsolve F x0 (1 / 1000000)) (\<lambda>SOL.
       Inr (rescale T0 SOL))))"

text \<open>
  The call: the outcome (an exception, or the return of \<^verbatim>\<open>None\<close>) and the object after
  it. The five attributes are assigned by the last two statements, lines 120 and 121;
  \<^verbatim>\<open>SOL\<close> has one entry for each of the five unknowns, so neither statement raises.
\<close>

definition PMCNondim_run ::
  "solver \<Rightarrow> PMCNondim \<Rightarrow> real \<Rightarrow> real \<Rightarrow> real \<Rightarrow> real \<Rightarrow> real \<Rightarrow> real \<Rightarrow> real
   \<Rightarrow> (error + unit) \<times> PMCNondim" where
  "PMCNondim_run nsolve self cp T0 T3a T4 f f_st LHV =
     (case PMCNondim_SOL nsolve self cp T0 T3a T4 f f_st LHV of
        Inl e \<Rightarrow> (Inl e, self)
      | Inr (s0, s1, s2, s3, s4) \<Rightarrow>
          (Inr (), self\<lparr>T3x := Some s0, T3y := Some s1, T3b := Some s2,
                         TS1 := Some s3, TS2 := Some s4\<rparr>))"

subsection \<open>PMC.run\<close>

text \<open>
  Lines 32 to 34. \<^verbatim>\<open>np.average\<close> of the two coefficients is their arithmetic mean.
\<close>

definition K_R_1 :: "PMC \<Rightarrow> error + real" where
  "K_R_1 self = py_div (3 * (1 - voidFrac self)) (dp_upstr self * 1000)"

definition K_R_2 :: "PMC \<Rightarrow> error + real" where
  "K_R_2 self = py_div (3 * (1 - voidFrac self)) (dp_dwnstr self * 1000)"

definition K_R :: "PMC \<Rightarrow> error + real" where
  "K_R self =
     and_then (K_R_1 self) (\<lambda>k1.
     and_then (K_R_2 self) (\<lambda>k2. Inr ((k1 + k2) / 2)))"

text \<open>Line 36.\<close>

definition iota_dim :: "PMC \<Rightarrow> real \<Rightarrow> error + real" where
  "iota_dim self cp = py_div (lambda_eff self) (massFlux self * cp * L self)"

text \<open>
  Lines 32 to 38: the three groups. Line 37 reads the global \<^verbatim>\<open>ct\<close> first (the product
  \<^verbatim>\<open>16.*ct.stefan_boltzmann\<close> is the leftmost operand). \<^verbatim>\<open>K_R\<close> is a NumPy float, so the
  divisor of line 37 is one too and the division would not raise.
\<close>

definition groups :: "PMC \<Rightarrow> real \<Rightarrow> real \<Rightarrow> error + (real \<times> real \<times> real)" where
  "groups self cp T0 =
     and_then (K_R self) (\<lambda>kr.
     and_then (iota_dim self cp) (\<lambda>io.
     and_then (load_global ''ct'' stefan_boltzmann) (\<lambda>sigma.
       let de = (16 * sigma * T0 ^ 3) / (3 * kr * lambda_eff self);
           m = (3 * emissivity self * kr * (1 - voidFrac self) * L self) / 16
       in Inr (io, de, m))))"

text \<open>
  Lines 29 to 68: the value of \<^verbatim>\<open>SOL\<close> after the rescaling. Line 40 prints the three
  groups; what the program prints is not part of the model.
\<close>

definition PMC_SOL ::
  "solver \<Rightarrow> PMC \<Rightarrow> real \<Rightarrow> real \<Rightarrow> real \<Rightarrow> real \<Rightarrow> real \<Rightarrow> real \<Rightarrow> real
   \<Rightarrow> error + vec5" where
  "PMC_SOL nsolve self cp T0 T3a T4 f f_st LHV =
     and_then (py_div T3a T0) (\<lambda>th_3a.
     and_then (py_div T4 T0) (\<lambda>th_4.
     and_then (groups self cp T0) (\<lambda>(io, de, m).
     and_then (equations io de m (PMCData.DeltaT_PH self) (PMCData.DeltaT_RC self)
                 th_3a th_4 cp T0 f f_st LHV) (\<lambda>F.
     and_then (initial_guess T3a) (\<lambda>x0.
     and_then (nsolve F x0 (1 / 1000000)) (\<lambda>SOL.
       Inr (rescale T0 SOL)))))))"

definition PMC_run ::
  "solver \<Rightarrow> PMC \<Rightarrow> real \<Rightarrow> real \<Rightarrow> real \<Rightarrow> real \<Rightarrow> real \<Rightarrow> real \<Rightarrow> real
   \<Rightarrow> (error + unit) \<times> PMC" where
  "PMC_run nsolve self cp T0 T3a T4 f f_st LHV =
     (case PMC_SOL nsolve self cp T0 T3a T4 f f_st LHV of
        Inl e \<Rightarrow> (Inl e, self)
      | Inr (s0, s1, s2, s3, s4) \<Rightarrow>
          (Inr (), self\<lparr>PMC.T3x := Some s0, PMC.T3y := Some s1, PMC.T3b := Some s2,
                         PMC.TS1 := Some s3, PMC.TS2 := Some s4\<rparr>))"

subsection \<open>The inputs of driver_dim.py\<close>

text \<open>
  The module-level values of \<^verbatim>\<open>driver_dim.py\<close>, lines 21 to 30 and 38 to 49, with which
  it calls \<^verbatim>\<open>myPMC.run(cp,T2,T3a,T4,f_loc,f_st,LHV)\<close>.
\<close>

definition driver_f_st :: real where "driver_f_st = 1 / (1716 / 100)"
definition driver_LHV :: real where "driver_LHV = 50060000"
definition driver_T2 :: real where "driver_T2 = 300"
definition driver_T4 :: real where "driver_T4 = 1400"
definition driver_cp :: real where "driver_cp = 1200"
definition driver_phi :: real where "driver_phi = 3 / 10"
definition driver_beta :: real where "driver_beta = 102 / 1000"

definition driver_f :: real where
  "driver_f = driver_phi * driver_f_st"

definition driver_T3a :: real where
  "driver_T3a = driver_T4 - (driver_f / (driver_f + 1)) * (driver_LHV / driver_cp)"

definition driver_f_loc :: real where
  "driver_f_loc = driver_f / (1 - driver_beta)"

definition myProps :: PMCData where
  "myProps = InterfaceStabilized\<lparr>emissivity := 0\<rparr>"

definition myPMC :: PMC where
  "myPMC = PMC_init myProps"

subsection \<open>A run of the non-dimensional solver on the preset\<close>

text \<open>
  The object built from the non-dimensional preset, a vector close to the root of its
  system for the inputs of the driver, and the object after a run that returns that
  vector.
\<close>

definition myPMCNondim :: PMCNondim where
  "myPMCNondim = PMCNondim_init InterfaceStabilizedNondim"

definition example_root :: vec5 where
  "example_root = (4494832499 / 1000000000, 1430061553 / 200000000, 2466435609 / 500000000,
                2280749583 / 500000000, 4866204551 / 1000000000)"

definition example_result :: PMCNondim where
  "example_result = myPMCNondim
     \<lparr>T3x := Some (4494832499 / 1000000000 * 300), T3y := Some (1430061553 / 200000000 * 300),
      T3b := Some (2466435609 / 500000000 * 300), TS1 := Some (2280749583 / 500000000 * 300),
      TS2 := Some (4866204551 / 1000000000 * 300)\<rparr>"

text \<open>
  The same object and inputs with every temperature doubled (the two offsets, \<open>T0\<close>,
  \<open>T3a\<close> and \<open>T4\<close>), and a vector close to the root of that system.
\<close>

definition myPMCNondim_scaled :: PMCNondim where
  "myPMCNondim_scaled =
     myPMCNondim\<lparr>DeltaT_PH := 2 * DeltaT_PH myPMCNondim, DeltaT_RC := 2 * DeltaT_RC myPMCNondim\<rparr>"

definition scaled_root :: vec5 where
  "scaled_root = (314971149 / 100000000, 4477449123 / 1000000000, 721026717 / 200000000,
                  3216378157 / 1000000000, 3538466919 / 1000000000)"

section \<open>Properties\<close>

subsection \<open>Division, sequencing and the unbound name\<close>

lemma py_div_Inr_iff: "py_div a b = Inr v \<longleftrightarrow> b \<noteq> 0 \<and> v = a / b"
  by (auto simp: py_div_def)

lemma and_then_Inr_iff: "and_then m k = Inr v \<longleftrightarrow> (\<exists>u. m = Inr u \<and> k u = Inr v)"
  by (cases m) simp_all

lemma load_ct: "load_global ''ct'' v = Inl (NameError ''ct'')"
  by (simp add: load_global_def module_names_def)

lemma groups_raises:
  "groups self cp T0 =
     Inl (if dp_upstr self * 1000 = 0 \<or> dp_dwnstr self * 1000 = 0 \<or> massFlux self * cp * L self = 0
          then ZeroDivisionError else NameError ''ct'')"
  by (simp add: groups_def K_R_def K_R_1_def K_R_2_def iota_dim_def py_div_def load_ct)

lemma PMC_SOL_raises:
  "PMC_SOL ns self cp T0 T3a T4 f f_st LHV =
     Inl (if T0 = 0 \<or> dp_upstr self * 1000 = 0 \<or> dp_dwnstr self * 1000 = 0 \<or> massFlux self * cp * L self = 0
          then ZeroDivisionError else NameError ''ct'')"
  by (simp add: PMC_SOL_def groups_raises py_div_def)

lemma first_within_contract: "solver_contract (first_within vs)"
  unfolding solver_contract_def
proof (intro allI impI)
  fix F x0 tol v
  assume "first_within vs F x0 tol = Inr v"
  then show "within_tol tol (F v)"
    by (induction vs) (auto split: if_splits)
qed

lemma LHV_branch_lean: "f < f_st \<Longrightarrow> LHV_branch f f_st LHV = Inr LHV"
  by (simp add: LHV_branch_def)

lemma LHV_branch_rich:
  "\<not> f < f_st \<Longrightarrow> f_st \<noteq> 0 \<Longrightarrow> f \<noteq> 0 \<Longrightarrow> LHV_branch f f_st LHV = Inr (LHV / (f / f_st))"
  by (simp add: LHV_branch_def py_div_def)

lemma LHV_branch_Inr_D:
  "LHV_branch f f_st LHV = Inr h \<Longrightarrow> h = (if f < f_st then LHV else LHV / (f / f_st))"
  by (auto simp: LHV_branch_def py_div_def and_then_Inr_iff split: if_splits)

lemma LHV_branch_Inr_iff:
  "(\<exists>h. LHV_branch f f_st LHV = Inr h) \<longleftrightarrow> (f < f_st \<or> (f_st \<noteq> 0 \<and> f \<noteq> 0))"
  by (auto simp: LHV_branch_def py_div_def and_then_Inr_iff split: if_splits)

lemma equations_Inr_D:
  assumes "equations io de m dPH dRC th_3a th_4 cp T0 f f_st LHV = Inr F"
  shows "T0 \<noteq> 0 \<and> f + 1 \<noteq> 0 \<and> cp \<noteq> 0 \<and>
         (\<exists>h. LHV_branch f f_st LHV = Inr h \<and>
            F = (\<lambda>th. (f1 io de m th_3a th, f2 (f / (f + 1) * (h / (cp * T0))) th,
                        f3 io de m th_4 th, f4 (dPH / T0) th, f5 (dRC / T0) th)))"
  using assms
  by (auto simp: equations_def heat_release_def and_then_Inr_iff py_div_Inr_iff)

lemma equations_Inr_I:
  assumes "T0 \<noteq> 0" "f + 1 \<noteq> 0" "cp \<noteq> 0" "LHV_branch f f_st LHV = Inr h"
  shows "equations io de m dPH dRC th_3a th_4 cp T0 f f_st LHV =
           Inr (\<lambda>th. (f1 io de m th_3a th, f2 (f / (f + 1) * (h / (cp * T0))) th,
                        f3 io de m th_4 th, f4 (dPH / T0) th, f5 (dRC / T0) th))"
  using assms by (simp add: equations_def heat_release_def py_div_def)

lemma PMCNondim_equations_Inr_D:
  assumes "PMCNondim_equations self cp T0 T3a T4 f f_st LHV = Inr F"
  shows "T0 \<noteq> 0 \<and> f + 1 \<noteq> 0 \<and> cp \<noteq> 0 \<and>
         (\<exists>h. LHV_branch f f_st LHV = Inr h \<and>
            F = (\<lambda>th. (f1 (iota self) (delta self) (mu self) (T3a / T0) th,
                        f2 (f / (f + 1) * (h / (cp * T0))) th,
                        f3 (iota self) (delta self) (mu self) (T4 / T0) th,
                        f4 (DeltaT_PH self / T0) th, f5 (DeltaT_RC self / T0) th)))"
proof -
  from assms have "equations (iota self) (delta self) (mu self) (DeltaT_PH self) (DeltaT_RC self)
         (T3a / T0) (T4 / T0) cp T0 f f_st LHV = Inr F"
    by (auto simp: PMCNondim_equations_def and_then_Inr_iff py_div_Inr_iff)
  then show ?thesis by (rule equations_Inr_D)
qed

lemma PMCNondim_equations_Inr_I:
  assumes "T0 \<noteq> 0" "f + 1 \<noteq> 0" "cp \<noteq> 0" "LHV_branch f f_st LHV = Inr h"
  shows "PMCNondim_equations self cp T0 T3a T4 f f_st LHV =
           Inr (\<lambda>th. (f1 (iota self) (delta self) (mu self) (T3a / T0) th,
                        f2 (f / (f + 1) * (h / (cp * T0))) th,
                        f3 (iota self) (delta self) (mu self) (T4 / T0) th,
                        f4 (DeltaT_PH self / T0) th, f5 (DeltaT_RC self / T0) th))"
  using assms by (simp add: PMCNondim_equations_def py_div_def equations_Inr_I)

lemma initial_guess_nonzero:
  "T3a \<noteq> 0 \<Longrightarrow> initial_guess T3a =
     Inr ((T3a + 1000) / T3a, (T3a + 1500) / T3a, (T3a + 1000) / T3a,
          (T3a + 1000) / T3a, (T3a + 1000) / T3a)"
  by (simp add: initial_guess_def py_div_def)

lemma PMCNondim_run_Inr_D:
  assumes "PMCNondim_run ns self cp T0 T3a T4 f f_st LHV = (Inr u, self')"
  shows "\<exists>F x0 a b c d e.
           PMCNondim_equations self cp T0 T3a T4 f f_st LHV = Inr F \<and>
           initial_guess T3a = Inr x0 \<and>
           ns F x0 (1 / 1000000) = Inr (a, b, c, d, e) \<and>
           self' = self\<lparr>T3x := Some (a * T0), T3y := Some (b * T0), T3b := Some (c * T0),
                         TS1 := Some (d * T0), TS2 := Some (e * T0)\<rparr>"
proof -
  from assms obtain s0 s1 s2 s3 s4 where
    sol: "PMCNondim_SOL ns self cp T0 T3a T4 f f_st LHV = Inr (s0, s1, s2, s3, s4)" and
    self': "self' = self\<lparr>T3x := Some s0, T3y := Some s1, T3b := Some s2,
                         TS1 := Some s3, TS2 := Some s4\<rparr>"
    by (auto simp: PMCNondim_run_def split: sum.splits)
  from sol obtain F x0 v where
    "PMCNondim_equations self cp T0 T3a T4 f f_st LHV = Inr F"
    "initial_guess T3a = Inr x0" "ns F x0 (1 / 1000000) = Inr v"
    "rescale T0 v = (s0, s1, s2, s3, s4)"
    by (auto simp: PMCNondim_SOL_def and_then_Inr_iff)
  then show ?thesis using self'
    by (cases v) (auto simp: rescale_def)
qed

lemma driver_values:
  "driver_cp = 1200" "driver_T2 = 300" "driver_T3a = 596450 / 873" "driver_T4 = 1400"
  "driver_f_loc = 1250 / 64207" "driver_f_st = 25 / 429" "driver_LHV = 50060000"
  by (simp_all add: driver_cp_def driver_T2_def driver_T3a_def driver_T4_def driver_f_loc_def
      driver_f_def driver_phi_def driver_beta_def driver_f_st_def driver_LHV_def)

lemma myPMCNondim_fields:
  "iota myPMCNondim = 5 / 100" "delta myPMCNondim = 138 / 100" "mu myPMCNondim = 0"
  "DeltaT_PH myPMCNondim = 20" "DeltaT_RC myPMCNondim = 20"
  by (simp_all add: myPMCNondim_def PMCNondim_init_def InterfaceStabilizedNondim_def)

lemma example_equations:
  "PMCNondim_equations myPMCNondim
       driver_cp driver_T2 driver_T3a driver_T4 driver_f_loc driver_f_st driver_LHV =
   Inr (\<lambda>th. (f1 (5 / 100) (138 / 100) 0 (driver_T3a / 300) th,
               f2 (driver_f_loc / (driver_f_loc + 1) * (driver_LHV / (1200 * 300))) th,
               f3 (5 / 100) (138 / 100) 0 (1400 / 300) th,
               f4 (20 / 300) th, f5 (20 / 300) th))"
proof -
  have lean: "LHV_branch driver_f_loc driver_f_st driver_LHV = Inr driver_LHV"
    by (rule LHV_branch_lean) (simp add: driver_values)
  have "driver_T2 \<noteq> 0" "driver_f_loc + 1 \<noteq> 0" "driver_cp \<noteq> 0"
    by (simp_all add: driver_values)
  from PMCNondim_equations_Inr_I [OF this lean, of myPMCNondim driver_T3a driver_T4]
  show ?thesis
    by (simp add: myPMCNondim_fields driver_values(1,2,4))
qed

lemma example_residuals:
  "within_tol (1 / 1000000)
     (f1 (5 / 100) (138 / 100) 0 (driver_T3a / 300) example_root,
      f2 (driver_f_loc / (driver_f_loc + 1) * (driver_LHV / (1200 * 300))) example_root,
      f3 (5 / 100) (138 / 100) 0 (1400 / 300) example_root,
      f4 (20 / 300) example_root, f5 (20 / 300) example_root)"
  by (simp add: within_tol_def example_root_def f1_def f2_def f3_def f4_def f5_def
      driver_values power_divide abs_le_iff)

lemma example_SOL:
  "PMCNondim_SOL (first_within [example_root]) myPMCNondim
       driver_cp driver_T2 driver_T3a driver_T4 driver_f_loc driver_f_st driver_LHV =
   Inr (rescale driver_T2 example_root)"
proof -
  have "driver_T3a \<noteq> 0" by (simp add: driver_values)
  from initial_guess_nonzero [OF this] show ?thesis
    unfolding PMCNondim_SOL_def example_equations
    by (simp only: and_then.simps first_within.simps example_residuals if_True)
qed

lemma example_run:
  "PMCNondim_run (first_within [example_root]) myPMCNondim
       driver_cp driver_T2 driver_T3a driver_T4 driver_f_loc driver_f_st driver_LHV =
   (Inr (), example_result)"
  unfolding PMCNondim_run_def example_SOL
  by (simp add: rescale_def example_root_def example_result_def driver_values(2))

lemma myPMC_fields:
  "lambda_eff myPMC = 87 / 10" "L myPMC = 3 * (254 / 10000)" "massFlux myPMC = 2"
  "voidFrac myPMC = 805 / 1000" "dp_upstr myPMC = 492 / 1000000"
  "dp_dwnstr myPMC = 3192 / 1000000" "emissivity myPMC = 0"
  "PMCData.DeltaT_PH myPMC = 20" "PMCData.DeltaT_RC myPMC = 20"
  "PMC.T3x myPMC = None" "PMC.T3y myPMC = None" "PMC.T3b myPMC = None"
  "PMC.TS1 myPMC = None" "PMC.TS2 myPMC = None"
  by (simp_all add: myPMC_def myProps_def PMC_init_def InterfaceStabilized_def)

lemma PMC_run_raises:
  "PMC_run ns self cp T0 T3a T4 f f_st LHV =
     (Inl (if T0 = 0 \<or> dp_upstr self * 1000 = 0 \<or> dp_dwnstr self * 1000 = 0 \<or>
              massFlux self * cp * L self = 0
           then ZeroDivisionError else NameError ''ct''), self)"
  by (simp add: PMC_run_def PMC_SOL_raises)

lemma PMCNondim_run_zero_T0:
  "PMCNondim_run ns self cp 0 T3a T4 f f_st LHV = (Inl ZeroDivisionError, self)"
  by (simp add: PMCNondim_run_def PMCNondim_SOL_def PMCNondim_equations_def py_div_def)

lemma PMCNondim_run_Inl_D:
  "fst (PMCNondim_run ns self cp T0 T3a T4 f f_st LHV) = Inl e \<Longrightarrow>
   snd (PMCNondim_run ns self cp T0 T3a T4 f f_st LHV) = self"
  by (auto simp: PMCNondim_run_def split: sum.splits)

lemma PMCNondim_run_solver_raises:
  assumes "PMCNondim_equations self cp T0 T3a T4 f f_st LHV = Inr F"
    and "initial_guess T3a = Inr x0" and "ns F x0 (1 / 1000000) = Inl e"
  shows "PMCNondim_run ns self cp T0 T3a T4 f f_st LHV = (Inl e, self)"
  using assms by (simp add: PMCNondim_run_def PMCNondim_SOL_def)

lemma myPMCNondim_scaled_fields:
  "iota myPMCNondim_scaled = 5 / 100" "delta myPMCNondim_scaled = 138 / 100"
  "mu myPMCNondim_scaled = 0"
  "DeltaT_PH myPMCNondim_scaled = 40" "DeltaT_RC myPMCNondim_scaled = 40"
  by (simp_all add: myPMCNondim_scaled_def myPMCNondim_fields)

lemma scaled_equations:
  "PMCNondim_equations myPMCNondim_scaled
       driver_cp (2 * driver_T2) (2 * driver_T3a) (2 * driver_T4)
       driver_f_loc driver_f_st driver_LHV =
   Inr (\<lambda>th. (f1 (5 / 100) (138 / 100) 0 (driver_T3a / 300) th,
               f2 (driver_f_loc / (driver_f_loc + 1) * (driver_LHV / (1200 * 600))) th,
               f3 (5 / 100) (138 / 100) 0 (1400 / 300) th,
               f4 (20 / 300) th, f5 (20 / 300) th))"
proof -
  have lean: "LHV_branch driver_f_loc driver_f_st driver_LHV = Inr driver_LHV"
    by (rule LHV_branch_lean) (simp add: driver_values)
  have "2 * driver_T2 \<noteq> 0" "driver_f_loc + 1 \<noteq> 0" "driver_cp \<noteq> 0"
    by (simp_all add: driver_values)
  from PMCNondim_equations_Inr_I [OF this lean, of myPMCNondim_scaled "2 * driver_T3a" "2 * driver_T4"]
  show ?thesis
    by (simp add: myPMCNondim_scaled_fields driver_values(1,2,4))
qed

lemma scaled_residuals:
  "within_tol (1 / 1000000)
     (f1 (5 / 100) (138 / 100) 0 (driver_T3a / 300) scaled_root,
      f2 (driver_f_loc / (driver_f_loc + 1) * (driver_LHV / (1200 * 600))) scaled_root,
      f3 (5 / 100) (138 / 100) 0 (1400 / 300) scaled_root,
      f4 (20 / 300) scaled_root, f5 (20 / 300) scaled_root)"
  by (simp add: within_tol_def scaled_root_def f1_def f2_def f3_def f4_def f5_def
      driver_values power_divide abs_le_iff)

lemma example_root_not_scaled:
  "\<not> within_tol (1 / 1000000)
     (f1 (5 / 100) (138 / 100) 0 (driver_T3a / 300) example_root,
      f2 (driver_f_loc / (driver_f_loc + 1) * (driver_LHV / (1200 * 600))) example_root,
      f3 (5 / 100) (138 / 100) 0 (1400 / 300) example_root,
      f4 (20 / 300) example_root, f5 (20 / 300) example_root)"
  by (simp add: within_tol_def example_root_def f2_def driver_values abs_le_iff)

lemma example_SOL2:
  "PMCNondim_SOL (first_within [example_root, scaled_root]) myPMCNondim
       driver_cp driver_T2 driver_T3a driver_T4 driver_f_loc driver_f_st driver_LHV =
   Inr (rescale driver_T2 example_root)"
proof -
  have "driver_T3a \<noteq> 0" by (simp add: driver_values)
  from initial_guess_nonzero [OF this] show ?thesis
    unfolding PMCNondim_SOL_def example_equations
    by (simp only: and_then.simps first_within.simps example_residuals if_True)
qed

lemma scaled_SOL:
  "PMCNondim_SOL (first_within [example_root, scaled_root]) myPMCNondim_scaled
       driver_cp (2 * driver_T2) (2 * driver_T3a) (2 * driver_T4)
       driver_f_loc driver_f_st driver_LHV =
   Inr (rescale (2 * driver_T2) scaled_root)"
proof -
  have "2 * driver_T3a \<noteq> 0" by (simp add: driver_values)
  from initial_guess_nonzero [OF this] show ?thesis
    unfolding PMCNondim_SOL_def scaled_equations
    by (simp only: and_then.simps first_within.simps scaled_residuals example_root_not_scaled
        if_True if_False)
qed

text \<open>
  With the heating value unchanged, no solver that meets the contract returns the same
  non-dimensional vector for the preset and for the preset with doubled temperatures:
  the constant of the second equation is halved.
\<close>

lemma rescale_inject: "T0 \<noteq> 0 \<Longrightarrow> rescale T0 u = rescale T0 v \<Longrightarrow> u = v"
  by (cases u, cases v) (simp add: rescale_def)

lemma PMCNondim_SOL_Inr_D:
  assumes "solver_contract ns"
    and "PMCNondim_SOL ns self cp T0 T3a T4 f f_st LHV = Inr (rescale T0 th)"
    and "PMCNondim_equations self cp T0 T3a T4 f f_st LHV = Inr F"
  shows "within_tol (1 / 1000000) (F th)"
proof -
  from assms(3) have T0: "T0 \<noteq> 0" using PMCNondim_equations_Inr_D by blast
  from assms(2,3) obtain x0 v where
    "ns F x0 (1 / 1000000) = Inr v" "rescale T0 v = rescale T0 th"
    by (auto simp: PMCNondim_SOL_def and_then_Inr_iff)
  with T0 have "ns F x0 (1 / 1000000) = Inr th"
    using rescale_inject by blast
  with assms(1) show ?thesis unfolding solver_contract_def by blast
qed

lemma scaling_changes_every_solution:
  assumes "solver_contract ns"
    and "PMCNondim_SOL ns myPMCNondim
       driver_cp driver_T2 driver_T3a driver_T4 driver_f_loc driver_f_st driver_LHV =
     Inr (rescale driver_T2 th)"
    and "PMCNondim_SOL ns myPMCNondim_scaled
       driver_cp (2 * driver_T2) (2 * driver_T3a) (2 * driver_T4)
       driver_f_loc driver_f_st driver_LHV =
     Inr (rescale (2 * driver_T2) th')"
  shows "th \<noteq> th'"
proof
  assume eq: "th = th'"
  obtain x y b s1 s2 where th: "th = (x, y, b, s1, s2)" by (cases th)
  from PMCNondim_SOL_Inr_D [OF assms(1,2) example_equations]
  have 1: "abs (driver_f_loc / (driver_f_loc + 1) * (driver_LHV / (1200 * 300)) - (y - x))
             \<le> 1 / 1000000"
    by (simp add: within_tol_def th f2_def)
  from PMCNondim_SOL_Inr_D [OF assms(1,3) scaled_equations]
  have 2: "abs (driver_f_loc / (driver_f_loc + 1) * (driver_LHV / (1200 * 600)) - (y - x))
             \<le> 1 / 1000000"
    by (simp add: within_tol_def eq [symmetric] th f2_def)
  from 1 2 have
    "abs (1564375 / 589113 - (y - x)) \<le> 1 / 1000000"
    "abs (1564375 / 1178226 - (y - x)) \<le> 1 / 1000000"
    by (simp_all add: driver_values)
  then show False by linarith
qed

section \<open>The claims\<close>

subsection \<open>C1: the residuals at the reported solution\<close>

text \<open>
  Claim C1. Whenever \<^verbatim>\<open>PMCNondim.run\<close> returns, the five stored temperatures, each divided
  by \<open>T0\<close>, make the five residual expressions at most 1e-6 in magnitude. The solver is
  any function that meets the contract of the Nonlinear Solver; the program adds that it
  hands the solver these five expressions and the tolerance 1e-6, that \<open>T0\<close> is not zero
  when the solver is reached, and that the stored values are the solver's, times \<open>T0\<close>.
  \<^verbatim>\<open>PMC.run\<close> never returns (see C4).
\<close>

theorem C1_residual_satisfaction:
  assumes contract: "solver_contract ns"
    and run: "PMCNondim_run ns self cp T0 T3a T4 f f_st LHV = (Inr (), self')"
  shows "\<exists>x y b s1 s2 h.
           T3x self' = Some x \<and> T3y self' = Some y \<and> T3b self' = Some b \<and>
           TS1 self' = Some s1 \<and> TS2 self' = Some s2 \<and>
           LHV_branch f f_st LHV = Inr h \<and>
           abs (f1 (iota self) (delta self) (mu self) (T3a / T0)
                  (x / T0, y / T0, b / T0, s1 / T0, s2 / T0)) \<le> 1 / 1000000 \<and>
           abs (f2 (f / (f + 1) * (h / (cp * T0)))
                  (x / T0, y / T0, b / T0, s1 / T0, s2 / T0)) \<le> 1 / 1000000 \<and>
           abs (f3 (iota self) (delta self) (mu self) (T4 / T0)
                  (x / T0, y / T0, b / T0, s1 / T0, s2 / T0)) \<le> 1 / 1000000 \<and>
           abs (f4 (DeltaT_PH self / T0)
                  (x / T0, y / T0, b / T0, s1 / T0, s2 / T0)) \<le> 1 / 1000000 \<and>
           abs (f5 (DeltaT_RC self / T0)
                  (x / T0, y / T0, b / T0, s1 / T0, s2 / T0)) \<le> 1 / 1000000"
proof -
  from PMCNondim_run_Inr_D [OF run] obtain F x0 a b c d e where
    eqs: "PMCNondim_equations self cp T0 T3a T4 f f_st LHV = Inr F" and
    ns: "ns F x0 (1 / 1000000) = Inr (a, b, c, d, e)" and
    self': "self' = self\<lparr>T3x := Some (a * T0), T3y := Some (b * T0), T3b := Some (c * T0),
                         TS1 := Some (d * T0), TS2 := Some (e * T0)\<rparr>"
    by blast
  from PMCNondim_equations_Inr_D [OF eqs] obtain h where
    T0: "T0 \<noteq> 0" and h: "LHV_branch f f_st LHV = Inr h" and
    F: "F = (\<lambda>th. (f1 (iota self) (delta self) (mu self) (T3a / T0) th,
                        f2 (f / (f + 1) * (h / (cp * T0))) th,
                        f3 (iota self) (delta self) (mu self) (T4 / T0) th,
                        f4 (DeltaT_PH self / T0) th, f5 (DeltaT_RC self / T0) th))"
    by blast
  from contract ns have "within_tol (1 / 1000000) (F (a, b, c, d, e))"
    unfolding solver_contract_def by blast
  with T0 h show ?thesis
    unfolding F self' within_tol_def by simp
qed


text \<open>
  The run on the non-dimensional preset with the inputs of the driver returns, and the
  stored temperatures satisfy the five equations.
\<close>

theorem C1_residual_satisfaction_witness:
  "\<exists>x y b s1 s2 h.
      T3x example_result = Some x \<and> T3y example_result = Some y \<and>
      T3b example_result = Some b \<and> TS1 example_result = Some s1 \<and>
      TS2 example_result = Some s2 \<and>
      LHV_branch driver_f_loc driver_f_st driver_LHV = Inr h \<and>
      abs (f1 (iota myPMCNondim) (delta myPMCNondim) (mu myPMCNondim) (driver_T3a / driver_T2)
             (x / driver_T2, y / driver_T2, b / driver_T2, s1 / driver_T2, s2 / driver_T2))
        \<le> 1 / 1000000 \<and>
      abs (f2 (driver_f_loc / (driver_f_loc + 1) * (h / (driver_cp * driver_T2)))
             (x / driver_T2, y / driver_T2, b / driver_T2, s1 / driver_T2, s2 / driver_T2))
        \<le> 1 / 1000000 \<and>
      abs (f3 (iota myPMCNondim) (delta myPMCNondim) (mu myPMCNondim) (driver_T4 / driver_T2)
             (x / driver_T2, y / driver_T2, b / driver_T2, s1 / driver_T2, s2 / driver_T2))
        \<le> 1 / 1000000 \<and>
      abs (f4 (DeltaT_PH myPMCNondim / driver_T2)
             (x / driver_T2, y / driver_T2, b / driver_T2, s1 / driver_T2, s2 / driver_T2))
        \<le> 1 / 1000000 \<and>
      abs (f5 (DeltaT_RC myPMCNondim / driver_T2)
             (x / driver_T2, y / driver_T2, b / driver_T2, s1 / driver_T2, s2 / driver_T2))
        \<le> 1 / 1000000"
  by (rule C1_residual_satisfaction [OF first_within_contract example_run])

subsection \<open>C2: the dimensional and the non-dimensional entry point\<close>

text \<open>
  Claim C2. The two entry points are to give the same temperatures. On the inputs of
  \<^verbatim>\<open>driver_dim.py\<close> the dimensional one raises \<^verbatim>\<open>NameError\<close> at line 37, for the unbound
  name \<^verbatim>\<open>ct\<close>, whatever the solver, and assigns no temperature, although the driver reads
  \<^verbatim>\<open>myPMC.T3x\<close> after the call.
\<close>

theorem C2_driver_run_raises:
  "fst (PMC_run ns myPMC
      driver_cp driver_T2 driver_T3a driver_T4 driver_f_loc driver_f_st driver_LHV) =
     Inl (NameError ''ct'') \<and>
   PMC.T3x (snd (PMC_run ns myPMC
      driver_cp driver_T2 driver_T3a driver_T4 driver_f_loc driver_f_st driver_LHV)) = None"
  by (simp add: PMC_run_raises myPMC_fields driver_values)

text \<open>
  The same call with one solver fixed.
\<close>

theorem C2_driver_run_raises_witness:
  "fst (PMC_run (first_within [example_root]) myPMC
      driver_cp driver_T2 driver_T3a driver_T4 driver_f_loc driver_f_st driver_LHV) =
     Inl (NameError ''ct'')"
  using C2_driver_run_raises [of "first_within [example_root]"] by simp

subsection \<open>C3: the reduction to dimensionless groups\<close>

text \<open>
  Claim C3, as stated, at the preset: the extinction coefficient of the upstream pores is
  not \<open>3 (1 - voidFrac) / dp_upstr\<close> with the diameter in metres. Line 32 multiplies the
  diameter by 1000, following its comment (pore diameter in mm).
\<close>

theorem C3_extinction_counterexample:
  "K_R_1 myPMC = Inr (195 / 164) \<and>
   3 * (1 - voidFrac myPMC) / dp_upstr myPMC = 48750 / 41 \<and>
   K_R_1 myPMC \<noteq> Inr (3 * (1 - voidFrac myPMC) / dp_upstr myPMC)"
  by (simp add: K_R_1_def py_div_def myPMC_fields)

text \<open>
  Claim C3, amended. For positive pore diameters, mass flux and length and a heat capacity
  other than zero, each extinction coefficient is \<open>3 (1 - voidFrac)\<close> over the pore
  diameter times 1000, \<open>K_R\<close> is the arithmetic mean of the two, and \<open>iota\<close> is the
  conductivity over mass flux times \<open>cp\<close> times length. (Lines 37 and 38, for \<open>delta\<close> and
  \<open>mu\<close>, are not reached: see C4.)
\<close>

theorem C3_group_reducer:
  assumes "0 < dp_upstr self" "0 < dp_dwnstr self" "0 < massFlux self" "0 < L self" "cp \<noteq> 0"
  shows "K_R_1 self = Inr (3 * (1 - voidFrac self) / (dp_upstr self * 1000)) \<and>
         K_R_2 self = Inr (3 * (1 - voidFrac self) / (dp_dwnstr self * 1000)) \<and>
         K_R self = Inr ((3 * (1 - voidFrac self) / (dp_upstr self * 1000) +
                          3 * (1 - voidFrac self) / (dp_dwnstr self * 1000)) / 2) \<and>
         iota_dim self cp = Inr (lambda_eff self / (massFlux self * cp * L self))"
  using assms by (simp add: K_R_def K_R_1_def K_R_2_def iota_dim_def py_div_def)

text \<open>
  The values at the preset of \<^verbatim>\<open>Properties.py\<close>.
\<close>

theorem C3_group_reducer_witness:
  "K_R_1 myPMC = Inr (195 / 164) \<and> K_R_2 myPMC = Inr (195 / 1064) \<and>
   K_R myPMC = Inr (59865 / 87248) \<and> iota_dim myPMC driver_cp = Inr (725 / 15240)"
proof -
  have "0 < dp_upstr myPMC" "0 < dp_dwnstr myPMC" "0 < massFlux myPMC" "0 < L myPMC"
    "driver_cp \<noteq> 0"
    by (simp_all add: myPMC_fields driver_values)
  from C3_group_reducer [OF this] show ?thesis
    by (simp add: myPMC_fields driver_values)
qed

subsection \<open>C4: the dimensional entry point never returns\<close>

text \<open>
  Claim C4, as stated, at \<open>T0 = 0\<close>: line 29 divides by \<open>T0\<close> before line 37 is reached, and
  the exception is \<^verbatim>\<open>ZeroDivisionError\<close>, not \<^verbatim>\<open>NameError\<close>.
\<close>

theorem C4_zero_T0_counterexample:
  "fst (PMC_run (first_within [example_root]) myPMC
      driver_cp 0 driver_T3a driver_T4 driver_f_loc driver_f_st driver_LHV) = Inl ZeroDivisionError \<and>
   fst (PMC_run (first_within [example_root]) myPMC
      driver_cp 0 driver_T3a driver_T4 driver_f_loc driver_f_st driver_LHV) \<noteq> Inl (NameError ''ct'')"
  by (simp add: PMC_run_raises)

text \<open>
  Claim C4, amended. Every call of \<^verbatim>\<open>PMC.run\<close> raises before the solver is reached and
  leaves the object as it was: \<^verbatim>\<open>ZeroDivisionError\<close> when \<open>T0\<close>, a pore diameter or the
  product of mass flux, \<open>cp\<close> and length is zero, and \<^verbatim>\<open>NameError\<close> for \<^verbatim>\<open>ct\<close> otherwise.
  A call of \<^verbatim>\<open>PMCNondim.run\<close> can return.
\<close>

theorem C4_dimensional_run_raises:
  "PMC_run ns self cp T0 T3a T4 f f_st LHV =
     (Inl (if T0 = 0 \<or> dp_upstr self * 1000 = 0 \<or> dp_dwnstr self * 1000 = 0 \<or>
              massFlux self * cp * L self = 0
           then ZeroDivisionError else NameError ''ct''), self) \<and>
   fst (PMCNondim_run (first_within [example_root]) myPMCNondim
          driver_cp driver_T2 driver_T3a driver_T4 driver_f_loc driver_f_st driver_LHV) = Inr ()"
  by (simp add: PMC_run_raises example_run)

text \<open>
  On the inputs of the driver the exception is the \<^verbatim>\<open>NameError\<close>.
\<close>

theorem C4_dimensional_run_raises_witness:
  "PMC_run (first_within [example_root]) myPMC
      driver_cp driver_T2 driver_T3a driver_T4 driver_f_loc driver_f_st driver_LHV =
     (Inl (NameError ''ct''), myPMC) \<and>
   fst (PMCNondim_run (first_within [example_root]) myPMCNondim
          driver_cp driver_T2 driver_T3a driver_T4 driver_f_loc driver_f_st driver_LHV) = Inr ()"
  using C4_dimensional_run_raises [of "first_within [example_root]" myPMC
      driver_cp driver_T2 driver_T3a driver_T4 driver_f_loc driver_f_st driver_LHV]
  by (simp add: myPMC_fields driver_values)

subsection \<open>C5: the heating value on the lean and on the rich side\<close>

text \<open>
  Claim C5. For \<open>f < f_st\<close> the heating value that enters the second equation is \<open>LHV\<close>;
  for \<open>f \<ge> f_st\<close> it is \<open>LHV / (f / f_st)\<close> (where that quotient exists: \<open>f_st\<close> and \<open>f\<close>
  not zero; otherwise the division raises). Where no division raises (\<open>T0\<close>, \<open>f + 1\<close>
  and \<open>cp\<close> not zero as well), the statements shared by the two \<^verbatim>\<open>run\<close> methods, and
  \<^verbatim>\<open>PMCNondim.run\<close> with them, do build a system, and its second residual is
  \<open>f / (f + 1) * (LHV' / (cp * T0)) - (th_3y - th_3x)\<close> with \<open>LHV'\<close> that heating value.
  Conversely, every system built has this second residual.
\<close>

theorem C5_heating_value:
  "(f < f_st \<longrightarrow> LHV_branch f f_st LHV = Inr LHV) \<and>
   (f_st \<le> f \<longrightarrow> f_st \<noteq> 0 \<longrightarrow> f \<noteq> 0 \<longrightarrow> LHV_branch f f_st LHV = Inr (LHV / (f / f_st))) \<and>
   (T0 \<noteq> 0 \<longrightarrow> f + 1 \<noteq> 0 \<longrightarrow> cp \<noteq> 0 \<longrightarrow> (f < f_st \<or> (f_st \<noteq> 0 \<and> f \<noteq> 0)) \<longrightarrow>
      (\<exists>F. equations io de m dPH dRC th_3a th_4 cp T0 f f_st LHV = Inr F \<and>
           (\<forall>x y b s1 s2. fst (snd (F (x, y, b, s1, s2))) =
              f / (f + 1) * ((if f < f_st then LHV else LHV / (f / f_st)) / (cp * T0)) - (y - x))) \<and>
      (\<exists>G. PMCNondim_equations self cp T0 T3a T4 f f_st LHV = Inr G \<and>
           (\<forall>x y b s1 s2. fst (snd (G (x, y, b, s1, s2))) =
              f / (f + 1) * ((if f < f_st then LHV else LHV / (f / f_st)) / (cp * T0)) - (y - x)))) \<and>
   (equations io de m dPH dRC th_3a th_4 cp T0 f f_st LHV = Inr F \<longrightarrow>
      (\<exists>h. LHV_branch f f_st LHV = Inr h \<and>
           fst (snd (F (x, y, b, s1, s2))) = f / (f + 1) * (h / (cp * T0)) - (y - x)))"
proof (intro conjI impI)
  assume "f < f_st"
  then show "LHV_branch f f_st LHV = Inr LHV" by (rule LHV_branch_lean)
next
  assume "f_st \<le> f" "f_st \<noteq> 0" "f \<noteq> 0"
  then show "LHV_branch f f_st LHV = Inr (LHV / (f / f_st))"
    by (simp add: LHV_branch_rich)
next
  assume nz: "T0 \<noteq> 0" "f + 1 \<noteq> 0" "cp \<noteq> 0" and d: "f < f_st \<or> (f_st \<noteq> 0 \<and> f \<noteq> 0)"
  from d obtain h where h: "LHV_branch f f_st LHV = Inr h"
    using LHV_branch_Inr_iff by blast
  then have h': "h = (if f < f_st then LHV else LHV / (f / f_st))"
    by (rule LHV_branch_Inr_D)
  show "\<exists>F. equations io de m dPH dRC th_3a th_4 cp T0 f f_st LHV = Inr F \<and>
           (\<forall>x y b s1 s2. fst (snd (F (x, y, b, s1, s2))) =
              f / (f + 1) * ((if f < f_st then LHV else LHV / (f / f_st)) / (cp * T0)) - (y - x))"
    unfolding equations_Inr_I [OF nz h] h' by (simp add: f2_def)
  show "\<exists>G. PMCNondim_equations self cp T0 T3a T4 f f_st LHV = Inr G \<and>
           (\<forall>x y b s1 s2. fst (snd (G (x, y, b, s1, s2))) =
              f / (f + 1) * ((if f < f_st then LHV else LHV / (f / f_st)) / (cp * T0)) - (y - x))"
    unfolding PMCNondim_equations_Inr_I [OF nz h] h' by (simp add: f2_def)
next
  assume "equations io de m dPH dRC th_3a th_4 cp T0 f f_st LHV = Inr F"
  from equations_Inr_D [OF this] obtain h where
    "LHV_branch f f_st LHV = Inr h"
    "F = (\<lambda>th. (f1 io de m th_3a th, f2 (f / (f + 1) * (h / (cp * T0))) th,
                        f3 io de m th_4 th, f4 (dPH / T0) th, f5 (dRC / T0) th))"
    by blast
  then show "\<exists>h. LHV_branch f f_st LHV = Inr h \<and>
           fst (snd (F (x, y, b, s1, s2))) = f / (f + 1) * (h / (cp * T0)) - (y - x)"
    by (simp add: f2_def)
qed

text \<open>
  The lean side at the inputs of the driver and the rich side at twice the stoichiometric
  ratio: in both, the system is built and its second residual has the constant computed
  from the heating value of that side (\<open>LHV\<close>, and \<open>LHV / 2\<close>).
\<close>

theorem C5_heating_value_witness:
  "LHV_branch driver_f_loc driver_f_st driver_LHV = Inr driver_LHV \<and>
   LHV_branch (2 * driver_f_st) driver_f_st driver_LHV = Inr (driver_LHV / 2) \<and>
   (\<exists>G. PMCNondim_equations myPMCNondim driver_cp driver_T2 driver_T3a driver_T4
          driver_f_loc driver_f_st driver_LHV = Inr G \<and>
        (\<forall>x y b s1 s2. fst (snd (G (x, y, b, s1, s2))) =
           1250 / 65457 * (50060000 / (1200 * 300)) - (y - x))) \<and>
   (\<exists>G. PMCNondim_equations myPMCNondim driver_cp driver_T2 driver_T3a driver_T4
          (2 * driver_f_st) driver_f_st driver_LHV = Inr G \<and>
        (\<forall>x y b s1 s2. fst (snd (G (x, y, b, s1, s2))) =
           50 / 479 * (25030000 / (1200 * 300)) - (y - x)))"
proof -
  note lean = C5_heating_value [of driver_f_loc driver_f_st driver_LHV driver_T2 driver_cp
      _ _ _ _ _ _ _ myPMCNondim driver_T3a driver_T4]
  note rich = C5_heating_value [of "2 * driver_f_st" driver_f_st driver_LHV driver_T2 driver_cp
      _ _ _ _ _ _ _ myPMCNondim driver_T3a driver_T4]
  have 1: "LHV_branch driver_f_loc driver_f_st driver_LHV = Inr driver_LHV"
    using lean by (simp add: driver_values)
  have 2: "LHV_branch (2 * driver_f_st) driver_f_st driver_LHV = Inr (driver_LHV / 2)"
    using rich by (simp add: driver_values)
  have c: "driver_T2 \<noteq> 0" "driver_cp \<noteq> 0" "driver_f_loc + 1 \<noteq> 0" "2 * driver_f_st + 1 \<noteq> 0"
    "driver_f_loc < driver_f_st" "driver_f_st \<noteq> 0" "2 * driver_f_st \<noteq> 0"
    "\<not> 2 * driver_f_st < driver_f_st"
    by (simp_all add: driver_values)
  have v: "driver_f_loc / (driver_f_loc + 1) * (driver_LHV / (driver_cp * driver_T2)) =
             1250 / 65457 * (50060000 / (1200 * 300))"
    "2 * driver_f_st / (2 * driver_f_st + 1) *
       (driver_LHV / (2 * driver_f_st / driver_f_st) / (driver_cp * driver_T2)) =
             50 / 479 * (25030000 / (1200 * 300))"
    by (simp_all add: driver_values)
  from lean c have 3: "\<exists>G. PMCNondim_equations myPMCNondim driver_cp driver_T2 driver_T3a driver_T4
          driver_f_loc driver_f_st driver_LHV = Inr G \<and>
        (\<forall>x y b s1 s2. fst (snd (G (x, y, b, s1, s2))) =
           1250 / 65457 * (50060000 / (1200 * 300)) - (y - x))"
    unfolding v [symmetric] by simp
  from rich c have 4: "\<exists>G. PMCNondim_equations myPMCNondim driver_cp driver_T2 driver_T3a driver_T4
          (2 * driver_f_st) driver_f_st driver_LHV = Inr G \<and>
        (\<forall>x y b s1 s2. fst (snd (G (x, y, b, s1, s2))) =
           50 / 479 * (25030000 / (1200 * 300)) - (y - x))"
    unfolding v [symmetric] by simp
  from 1 2 3 4 show ?thesis by (intro conjI)
qed

subsection \<open>C6: the five residuals\<close>

text \<open>
  Claim C6. Where no division raises, the system that \<^verbatim>\<open>PMCNondim.run\<close> builds is the
  five residuals of the unknowns, with \<open>T3a / T0\<close> and \<open>T4 / T0\<close> in the place of the two
  known temperatures and the two offsets divided by \<open>T0\<close>.
\<close>

theorem C6_five_residuals:
  assumes "T0 \<noteq> 0" "f + 1 \<noteq> 0" "cp \<noteq> 0" "f < f_st \<or> (f_st \<noteq> 0 \<and> f \<noteq> 0)"
  shows "PMCNondim_equations self cp T0 T3a T4 f f_st LHV =
    Inr (\<lambda>(th_3x, th_3y, th_3b, th_S1, th_S2).
      (iota self * ((1 + delta self * ((th_S1 + th_S2) / 2) ^ 3) * (th_S2 - th_S1)
                    - delta self * mu self * (th_S1 ^ 4 - (T3a / T0) ^ 4)) - (th_3x - T3a / T0),
       f / (f + 1) * ((if f < f_st then LHV else LHV / (f / f_st)) / (cp * T0)) - (th_3y - th_3x),
       iota self * ((1 + delta self * ((th_S1 + th_S2) / 2) ^ 3) * (th_S2 - th_S1)
                    + delta self * mu self * (th_S2 ^ 4 - (T4 / T0) ^ 4)) - (th_3y - th_3b),
       DeltaT_PH self / T0 - (th_S1 - th_3x),
       DeltaT_RC self / T0 - (th_3b - th_S2)))"
proof -
  from assms(4) obtain h where h: "LHV_branch f f_st LHV = Inr h"
    using LHV_branch_Inr_iff by blast
  then have h': "h = (if f < f_st then LHV else LHV / (f / f_st))"
    by (rule LHV_branch_Inr_D)
  show ?thesis
    unfolding PMCNondim_equations_Inr_I [OF assms(1-3) h] h'
    by (simp add: f1_def f2_def f3_def f4_def f5_def fun_eq_iff)
qed

text \<open>
  The system for the non-dimensional preset and the inputs of the driver.
\<close>

theorem C6_five_residuals_witness:
  "PMCNondim_equations myPMCNondim
       driver_cp driver_T2 driver_T3a driver_T4 driver_f_loc driver_f_st driver_LHV =
    Inr (\<lambda>(th_3x, th_3y, th_3b, th_S1, th_S2).
      (5 / 100 * ((1 + 138 / 100 * ((th_S1 + th_S2) / 2) ^ 3) * (th_S2 - th_S1)
                    - 138 / 100 * 0 * (th_S1 ^ 4 - (driver_T3a / 300) ^ 4)) - (th_3x - driver_T3a / 300),
       driver_f_loc / (driver_f_loc + 1) * (driver_LHV / (1200 * 300)) - (th_3y - th_3x),
       5 / 100 * ((1 + 138 / 100 * ((th_S1 + th_S2) / 2) ^ 3) * (th_S2 - th_S1)
                    + 138 / 100 * 0 * (th_S2 ^ 4 - (1400 / 300) ^ 4)) - (th_3y - th_3b),
       20 / 300 - (th_S1 - th_3x),
       20 / 300 - (th_3b - th_S2)))"
proof -
  have "driver_T2 \<noteq> 0" "driver_f_loc + 1 \<noteq> 0" "driver_cp \<noteq> 0"
    "driver_f_loc < driver_f_st \<or> (driver_f_st \<noteq> 0 \<and> driver_f_loc \<noteq> 0)"
    by (simp_all add: driver_values)
  from C6_five_residuals [OF this, of myPMCNondim driver_T3a driver_T4 driver_LHV]
  show ?thesis
    by (simp add: myPMCNondim_fields driver_values(1,2,4,5,6))
qed

subsection \<open>C7: invalid parameters\<close>

text \<open>
  Claim C7, as stated, at the preset with one field changed. The program has no check of
  its parameters and no exception class of its own. A negative pore diameter gives a
  negative extinction coefficient, a negative conductivity a negative \<open>iota\<close>, and the
  reduction then ends as it does for the preset itself, at the unbound name. A pore
  diameter of zero, and \<open>T0 = 0\<close>, end in Python's \<^verbatim>\<open>ZeroDivisionError\<close>.
\<close>

theorem C7_no_validation_counterexample:
  "K_R_1 (myPMC\<lparr>dp_upstr := - (492 / 1000000)\<rparr>) = Inr (- (195 / 164)) \<and>
   iota_dim (myPMC\<lparr>lambda_eff := - (87 / 10)\<rparr>) driver_cp = Inr (- (725 / 15240)) \<and>
   groups (myPMC\<lparr>dp_upstr := - (492 / 1000000)\<rparr>) driver_cp driver_T2 =
     Inl (NameError ''ct'') \<and>
   groups myPMC driver_cp driver_T2 = Inl (NameError ''ct'') \<and>
   fst (PMC_run (first_within [example_root]) (myPMC\<lparr>dp_upstr := 0\<rparr>)
          driver_cp driver_T2 driver_T3a driver_T4 driver_f_loc driver_f_st driver_LHV) =
     Inl ZeroDivisionError \<and>
   fst (PMCNondim_run (first_within [example_root]) myPMCNondim
          driver_cp 0 driver_T3a driver_T4 driver_f_loc driver_f_st driver_LHV) =
     Inl ZeroDivisionError"
  by (simp add: K_R_1_def iota_dim_def py_div_def myPMC_fields driver_values groups_raises
      PMC_run_raises PMCNondim_run_def PMCNondim_SOL_def PMCNondim_equations_def)

text \<open>
  Claim C7, amended. A zero pore diameter, a zero product of mass flux, \<open>cp\<close> and length,
  or \<open>T0 = 0\<close> make \<^verbatim>\<open>PMC.run\<close> raise \<^verbatim>\<open>ZeroDivisionError\<close>; \<open>T0 = 0\<close> makes
  \<^verbatim>\<open>PMCNondim.run\<close> raise it too; in each case the object is left as it was.
\<close>

theorem C7_zero_division:
  "(T0 = 0 \<or> dp_upstr self = 0 \<or> dp_dwnstr self = 0 \<or> massFlux self * cp * L self = 0 \<longrightarrow>
      PMC_run ns self cp T0 T3a T4 f f_st LHV = (Inl ZeroDivisionError, self)) \<and>
   PMCNondim_run ns' self' cp 0 T3a T4 f f_st LHV = (Inl ZeroDivisionError, self')"
  by (simp add: PMC_run_raises PMCNondim_run_zero_T0)

text \<open>
  The preset with the upstream pore diameter set to zero, and the non-dimensional preset
  with \<open>T0 = 0\<close>.
\<close>

theorem C7_zero_division_witness:
  "PMC_run (first_within [example_root]) (myPMC\<lparr>dp_upstr := 0\<rparr>)
      driver_cp driver_T2 driver_T3a driver_T4 driver_f_loc driver_f_st driver_LHV =
     (Inl ZeroDivisionError, myPMC\<lparr>dp_upstr := 0\<rparr>) \<and>
   PMCNondim_run (first_within [example_root]) myPMCNondim
      driver_cp 0 driver_T3a driver_T4 driver_f_loc driver_f_st driver_LHV =
     (Inl ZeroDivisionError, myPMCNondim)"
  using C7_zero_division [of driver_T2 "myPMC\<lparr>dp_upstr := 0\<rparr>" driver_cp
      "first_within [example_root]" driver_T3a driver_T4 driver_f_loc driver_f_st driver_LHV
      "first_within [example_root]" myPMCNondim]
  by simp

subsection \<open>C8: scaling the temperatures\<close>

text \<open>
  Claim C8, as stated, at the non-dimensional preset with the factor 2: one solver that
  meets the contract returns on both calls, and the two non-dimensional vectors differ.
  (By \<open>scaling_changes_every_solution\<close> they differ for every solver that meets the
  contract.) Line 108 divides the heating value by \<open>cp * T0\<close>, and neither \<open>LHV\<close> nor
  \<open>cp\<close> is scaled.
\<close>

theorem C8_scaling_counterexample:
  "PMCNondim_SOL (first_within [example_root, scaled_root]) myPMCNondim
       driver_cp driver_T2 driver_T3a driver_T4 driver_f_loc driver_f_st driver_LHV =
     Inr (rescale driver_T2 example_root) \<and>
   PMCNondim_SOL (first_within [example_root, scaled_root]) myPMCNondim_scaled
       driver_cp (2 * driver_T2) (2 * driver_T3a) (2 * driver_T4)
       driver_f_loc driver_f_st driver_LHV =
     Inr (rescale (2 * driver_T2) scaled_root) \<and>
   example_root \<noteq> scaled_root"
  by (simp add: example_SOL2 scaled_SOL) (simp add: example_root_def scaled_root_def)

text \<open>
  Claim C8, amended. When the heating value is multiplied by the positive factor as well,
  the system handed to the solver is the same (and the same exception ends the
  construction, when one does); so the non-dimensional vector that a solver meeting the
  contract returns for the scaled inputs satisfies the five equations of the unscaled
  inputs within 1e-6.
\<close>

theorem C8_scaling_with_LHV:
  assumes "0 < k"
  shows "PMCNondim_equations
           (self\<lparr>DeltaT_PH := k * DeltaT_PH self, DeltaT_RC := k * DeltaT_RC self\<rparr>)
           cp (k * T0) (k * T3a) (k * T4) f f_st (k * LHV) =
         PMCNondim_equations self cp T0 T3a T4 f f_st LHV \<and>
        (solver_contract ns \<longrightarrow>
         PMCNondim_SOL ns
           (self\<lparr>DeltaT_PH := k * DeltaT_PH self, DeltaT_RC := k * DeltaT_RC self\<rparr>)
           cp (k * T0) (k * T3a) (k * T4) f f_st (k * LHV) = Inr (rescale (k * T0) th) \<longrightarrow>
         (\<exists>F. PMCNondim_equations self cp T0 T3a T4 f f_st LHV = Inr F \<and>
              within_tol (1 / 1000000) (F th)))"
proof -
  let ?self' = "self\<lparr>DeltaT_PH := k * DeltaT_PH self, DeltaT_RC := k * DeltaT_RC self\<rparr>"
  have same: "PMCNondim_equations ?self' cp (k * T0) (k * T3a) (k * T4) f f_st (k * LHV) =
         PMCNondim_equations self cp T0 T3a T4 f f_st LHV"
  proof (cases "T0 = 0")
    case True
    then show ?thesis by (simp add: PMCNondim_equations_def py_div_def)
  next
    case False
    have b: "LHV_branch f f_st (k * LHV) =
             and_then (LHV_branch f f_st LHV) (\<lambda>h. Inr (k * h))"
      by (simp add: LHV_branch_def py_div_def)
    have h: "heat_release f (k * h) cp (k * T0) = heat_release f h cp T0" for h
      using assms by (simp add: heat_release_def py_div_def)
    from assms False show ?thesis
      by (cases "LHV_branch f f_st LHV")
         (simp_all add: PMCNondim_equations_def equations_def py_div_def b h)
  qed
  have "\<exists>F. PMCNondim_equations self cp T0 T3a T4 f f_st LHV = Inr F \<and>
              within_tol (1 / 1000000) (F th)"
    if c: "solver_contract ns" and
       r: "PMCNondim_SOL ns ?self' cp (k * T0) (k * T3a) (k * T4) f f_st (k * LHV) =
             Inr (rescale (k * T0) th)"
  proof -
    from r obtain F where
      F: "PMCNondim_equations ?self' cp (k * T0) (k * T3a) (k * T4) f f_st (k * LHV) = Inr F"
      by (auto simp: PMCNondim_SOL_def and_then_Inr_iff)
    from PMCNondim_SOL_Inr_D [OF c r F] F same show ?thesis by simp
  qed
  with same show ?thesis by blast
qed

text \<open>
  The non-dimensional preset with the factor 2: the same system, and the vector returned
  for the scaled inputs satisfies it.
\<close>

theorem C8_scaling_with_LHV_witness:
  "PMCNondim_equations myPMCNondim_scaled
       driver_cp (2 * driver_T2) (2 * driver_T3a) (2 * driver_T4)
       driver_f_loc driver_f_st (2 * driver_LHV) =
   PMCNondim_equations myPMCNondim
       driver_cp driver_T2 driver_T3a driver_T4 driver_f_loc driver_f_st driver_LHV \<and>
   PMCNondim_SOL (first_within [example_root]) myPMCNondim_scaled
       driver_cp (2 * driver_T2) (2 * driver_T3a) (2 * driver_T4)
       driver_f_loc driver_f_st (2 * driver_LHV) = Inr (rescale (2 * driver_T2) example_root) \<and>
   (\<exists>F. PMCNondim_equations myPMCNondim
          driver_cp driver_T2 driver_T3a driver_T4 driver_f_loc driver_f_st driver_LHV = Inr F \<and>
        within_tol (1 / 1000000) (F example_root))"
proof -
  note inst = C8_scaling_with_LHV [of 2 myPMCNondim driver_cp driver_T2 driver_T3a driver_T4
      driver_f_loc driver_f_st driver_LHV "first_within [example_root]" example_root,
      folded myPMCNondim_scaled_def]
  have k: "0 < (2::real)" by simp
  note same = inst [OF k, THEN conjunct1]
  have "2 * driver_T3a \<noteq> 0" by (simp add: driver_values)
  from initial_guess_nonzero [OF this]
  have sol: "PMCNondim_SOL (first_within [example_root]) myPMCNondim_scaled
       driver_cp (2 * driver_T2) (2 * driver_T3a) (2 * driver_T4)
       driver_f_loc driver_f_st (2 * driver_LHV) = Inr (rescale (2 * driver_T2) example_root)"
    unfolding PMCNondim_SOL_def same example_equations
    by (simp only: and_then.simps first_within.simps example_residuals if_True)
  from inst [OF k, THEN conjunct2, THEN mp, OF first_within_contract, THEN mp, OF sol] same sol
  show ?thesis by (intro conjI)
qed

subsection \<open>C9: the starting point and the tolerance\<close>

text \<open>
  Claim C9. Once the system is built and \<open>T3a\<close> is not zero, the solver is called with
  that system, the starting point \<open>(T3a + 1000) / T3a\<close> for every unknown but the
  second, \<open>(T3a + 1500) / T3a\<close> for the second, and the tolerance 1e-6; what it returns
  is multiplied by \<open>T0\<close>.
\<close>

theorem C9_initial_guess:
  assumes "PMCNondim_equations self cp T0 T3a T4 f f_st LHV = Inr F" and "T3a \<noteq> 0"
  shows "PMCNondim_SOL ns self cp T0 T3a T4 f f_st LHV =
     and_then (ns F ((T3a + 1000) / T3a, (T3a + 1500) / T3a, (T3a + 1000) / T3a,
                     (T3a + 1000) / T3a, (T3a + 1000) / T3a) (1 / 1000000))
       (\<lambda>SOL. Inr (rescale T0 SOL))"
  using assms by (simp add: PMCNondim_SOL_def initial_guess_nonzero)

text \<open>
  A solver that hands back its starting point when the tolerance is 1e-6, at the inputs
  of the driver.
\<close>

theorem C9_initial_guess_witness:
  "PMCNondim_SOL (\<lambda>F x0 tol. if tol = 1 / 1000000 then Inr x0 else Inl ValueError) myPMCNondim
       driver_cp driver_T2 driver_T3a driver_T4 driver_f_loc driver_f_st driver_LHV =
   Inr (rescale driver_T2
     ((driver_T3a + 1000) / driver_T3a, (driver_T3a + 1500) / driver_T3a,
      (driver_T3a + 1000) / driver_T3a, (driver_T3a + 1000) / driver_T3a,
      (driver_T3a + 1000) / driver_T3a))"
proof -
  have "driver_T3a \<noteq> 0" by (simp add: driver_values)
  from C9_initial_guess [OF example_equations this,
      of "\<lambda>F x0 tol. if tol = 1 / 1000000 then Inr x0 else Inl ValueError"]
  show ?thesis by simp
qed

subsection \<open>C10: no assignment when the call raises\<close>

text \<open>
  Claim C10. When \<^verbatim>\<open>nsolve\<close> raises, \<^verbatim>\<open>PMCNondim.run\<close> raises the same exception and the
  object is what it was before the call; the same holds for whatever exception ends the
  call. A call of \<^verbatim>\<open>PMC.run\<close> always leaves its object unchanged.
\<close>

theorem C10_no_assignment_on_raise:
  "(PMCNondim_equations self cp T0 T3a T4 f f_st LHV = Inr F \<longrightarrow>
      initial_guess T3a = Inr x0 \<longrightarrow> ns F x0 (1 / 1000000) = Inl e \<longrightarrow>
      PMCNondim_run ns self cp T0 T3a T4 f f_st LHV = (Inl e, self)) \<and>
   (fst (PMCNondim_run ns self cp T0 T3a T4 f f_st LHV) = Inl e' \<longrightarrow>
      snd (PMCNondim_run ns self cp T0 T3a T4 f f_st LHV) = self) \<and>
   snd (PMC_run ns pself cp T0 T3a T4 f f_st LHV) = pself"
  by (simp add: PMCNondim_run_solver_raises PMCNondim_run_Inl_D PMC_run_raises)

text \<open>
  A solver that finds no root, on the non-dimensional preset.
\<close>

theorem C10_no_assignment_on_raise_witness:
  "PMCNondim_run (first_within []) myPMCNondim
      driver_cp driver_T2 driver_T3a driver_T4 driver_f_loc driver_f_st driver_LHV =
     (Inl ValueError, myPMCNondim) \<and>
   snd (PMC_run (first_within []) myPMC
      driver_cp driver_T2 driver_T3a driver_T4 driver_f_loc driver_f_st driver_LHV) = myPMC"
proof -
  have g: "initial_guess driver_T3a =
     Inr ((driver_T3a + 1000) / driver_T3a, (driver_T3a + 1500) / driver_T3a,
          (driver_T3a + 1000) / driver_T3a, (driver_T3a + 1000) / driver_T3a,
          (driver_T3a + 1000) / driver_T3a)"
    by (rule initial_guess_nonzero) (simp add: driver_values)
  from C10_no_assignment_on_raise [of myPMCNondim driver_cp driver_T2 driver_T3a driver_T4
      driver_f_loc driver_f_st driver_LHV _ _ "first_within []" ValueError ValueError myPMC]
    example_equations g
  show ?thesis by simp
qed

end
